theory Spec2Isabelle
  imports Complex_Main "HOL-Library.AList"
begin

section \<open>Numbers of the host language\<close>

text \<open>
  A JavaScript number is modelled as a real number or one of the three special values
  of IEEE 754. The special values follow IEEE 754: \<open>0/0\<close>, \<open>\<infinity> - \<infinity>\<close> and
  \<open>0 * \<infinity>\<close> are \<open>NaN\<close>, a non-zero value divided by zero is an infinity, every
  comparison with \<open>NaN\<close> is false. Zero carries no sign: a zero divisor is read
  as \<open>+0\<close>.

  Arithmetic on finite values is exact: the rounding, overflow and underflow of binary64
  are not part of these operations. They are added in a separate section, for
  \<open>calculatePearson\<close>, where rounding decides the result at finite inputs. The other
  theorems are chosen so that they do not depend on it:
  they rest on array lengths, labels and the control flow, on the special values and
  their propagation, on the commutativity of multiplication, and on evaluations at
  small integers and halves, where binary64 is exact as well. The lemmas on the range
  of \<open>getPFromT\<close> and on the correlation coefficient being finite or \<open>NaN\<close> are
  statements about exact arithmetic.
\<close>

datatype jsnum = Num real | PInf | NInf | NaN

fun is_nan :: "jsnum \<Rightarrow> bool" where
  "is_nan NaN = True"
| "is_nan _ = False"

fun is_finite :: "jsnum \<Rightarrow> bool" where
  "is_finite (Num _) = True"
| "is_finite _ = False"

fun jneg :: "jsnum \<Rightarrow> jsnum" where
  "jneg (Num a) = Num (- a)"
| "jneg PInf = NInf"
| "jneg NInf = PInf"
| "jneg NaN = NaN"

fun jadd :: "jsnum \<Rightarrow> jsnum \<Rightarrow> jsnum" where
  "jadd (Num a) (Num b) = Num (a + b)"
| "jadd NaN _ = NaN"
| "jadd _ NaN = NaN"
| "jadd PInf NInf = NaN"
| "jadd NInf PInf = NaN"
| "jadd PInf _ = PInf"
| "jadd _ PInf = PInf"
| "jadd NInf _ = NInf"
| "jadd _ NInf = NInf"

definition jsub :: "jsnum \<Rightarrow> jsnum \<Rightarrow> jsnum" where
  "jsub a b = jadd a (jneg b)"

text \<open>The sign of a non-\<open>NaN\<close> number: \<open>1\<close>, \<open>0\<close> or \<open>-1\<close>.\<close>

fun jsign :: "jsnum \<Rightarrow> int" where
  "jsign (Num a) = (if a > 0 then 1 else if a < 0 then - 1 else 0)"
| "jsign PInf = 1"
| "jsign NInf = - 1"
| "jsign NaN = 0"

definition inf_of_sign :: "int \<Rightarrow> jsnum" where
  "inf_of_sign s = (if s > 0 then PInf else if s < 0 then NInf else NaN)"

fun jmul :: "jsnum \<Rightarrow> jsnum \<Rightarrow> jsnum" where
  "jmul (Num a) (Num b) = Num (a * b)"
| "jmul NaN _ = NaN"
| "jmul _ NaN = NaN"
| "jmul a b = inf_of_sign (jsign a * jsign b)"

fun jdiv :: "jsnum \<Rightarrow> jsnum \<Rightarrow> jsnum" where
  "jdiv (Num a) (Num b) =
     (if b \<noteq> 0 then Num (a / b) else inf_of_sign (jsign (Num a)))"
| "jdiv NaN _ = NaN"
| "jdiv _ NaN = NaN"
| "jdiv (Num a) _ = Num 0"
| "jdiv a (Num b) = inf_of_sign (jsign a * (if b < 0 then - 1 else 1))"
| "jdiv _ _ = NaN"

fun jabs :: "jsnum \<Rightarrow> jsnum" where
  "jabs (Num a) = Num \<bar>a\<bar>"
| "jabs PInf = PInf"
| "jabs NInf = PInf"
| "jabs NaN = NaN"

fun jsqrt :: "jsnum \<Rightarrow> jsnum" where
  "jsqrt (Num a) = (if a < 0 then NaN else Num (sqrt a))"
| "jsqrt PInf = PInf"
| "jsqrt NInf = NaN"
| "jsqrt NaN = NaN"

fun jexp :: "jsnum \<Rightarrow> jsnum" where
  "jexp (Num a) = Num (exp a)"
| "jexp PInf = PInf"
| "jexp NInf = Num 0"
| "jexp NaN = NaN"

fun jlt :: "jsnum \<Rightarrow> jsnum \<Rightarrow> bool" where
  "jlt (Num a) (Num b) = (a < b)"
| "jlt NaN _ = False"
| "jlt _ NaN = False"
| "jlt _ NInf = False"
| "jlt PInf _ = False"
| "jlt _ _ = True"

definition jle :: "jsnum \<Rightarrow> jsnum \<Rightarrow> bool" where
  "jle a b = (jlt a b \<or> (\<not> is_nan a \<and> a = b))"

text \<open>\<open>Math.max\<close> and \<open>Math.min\<close> of two arguments: \<open>NaN\<close> if either is \<open>NaN\<close>.\<close>

definition jmax :: "jsnum \<Rightarrow> jsnum \<Rightarrow> jsnum" where
  "jmax a b = (if is_nan a \<or> is_nan b then NaN else if jlt a b then b else a)"

definition jmin :: "jsnum \<Rightarrow> jsnum \<Rightarrow> jsnum" where
  "jmin a b = (if is_nan a \<or> is_nan b then NaN else if jlt b a then b else a)"

text \<open>A number lies in the closed interval \<open>[0, 1]\<close>; \<open>NaN\<close> lies in no interval.\<close>

definition in_unit_interval :: "jsnum \<Rightarrow> bool" where
  "in_unit_interval a = (jle (Num 0) a \<and> jle a (Num 1))"

text \<open>\<open>xs.reduce((a, b) => a + b, 0)\<close>\<close>

definition jsum :: "jsnum list \<Rightarrow> jsnum" where
  "jsum xs = foldl jadd (Num 0) xs"

section \<open>The p-value approximation and the significance stars\<close>

text \<open>
  \<open>getPFromT\<close> is private to the statistics module and every call passes a
  degrees-of-freedom argument computed from array lengths, so \<open>df\<close> is an integer.
\<close>

definition getPFromT :: "jsnum \<Rightarrow> int \<Rightarrow> jsnum" where
  "getPFromT t df =
    (if df \<le> 0 then Num 1
     else
       let t_abs = jabs t;
           k = jdiv (Num 1) (jadd (Num 1) (jmul (Num 0.2316419) t_abs));
           a1 = Num 0.319381530;
           a2 = Num (- 0.356563782);
           a3 = Num 1.781477937;
           a4 = Num (- 1.821255978);
           a5 = Num 1.330274429;
           poly = jmul (jadd (jmul (jadd (jmul (jadd (jmul (jadd (jmul a5 k) a4) k) a3) k) a2) k) a1) k;
           normalCDF = jsub (Num 1)
             (jmul (jmul (jdiv (Num 1) (jsqrt (jmul (Num 2) (Num pi))))
                         (jexp (jmul (jmul (Num (- 0.5)) t_abs) t_abs)))
                   poly);
           p = jmul (Num 2) (jsub (Num 1) normalCDF);
           p' = (if df < 30
                 then jmul p (jadd (Num 1)
                        (jdiv (jadd (jmul p p) (Num 1)) (jmul (Num 4) (Num (of_int df)))))
                 else p)
       in jmin (jmax p' (Num 0)) (Num 1))"

definition getSignificanceStars :: "jsnum \<Rightarrow> string" where
  "getSignificanceStars p =
    (if jlt p (Num 0.001) then ''***''
     else if jlt p (Num 0.01) then ''**''
     else if jlt p (Num 0.05) then ''*''
     else '''')"

section \<open>Group statistics\<close>

record GroupSummary =
  g_name :: string
  g_n :: nat
  g_mean :: jsnum
  g_ssq :: jsnum
  g_variance :: jsnum

record PairwiseComparison =
  group1 :: string
  group2 :: string
  pw_p :: jsnum
  sig :: string

record GroupReport =
  test :: string
  f_stat :: jsnum
  p_value :: jsnum
  etaSq :: jsnum
  groups :: "GroupSummary list"
  dfB :: int
  dfW :: int
  pairwise_tests :: "PairwiseComparison list"

text \<open>
  The argument of \<open>calculateGroupStats\<close> is an object from group label to an array of
  numbers: a list of entries in the order of \<open>Object.keys\<close>, whose labels are distinct.
\<close>

type_synonym group_input = "(string \<times> jsnum list) list"

text \<open>The body of \<open>groupNames.map\<close>: the summary of one group.\<close>

definition groupSummary :: "string \<times> jsnum list \<Rightarrow> GroupSummary" where
  "groupSummary e =
    (let vals = snd e;
         mean = jdiv (jsum vals) (Num (real (length vals)));
         ssq = foldl (\<lambda>a b. jadd a (jmul (jsub b mean) (jsub b mean))) (Num 0) vals;
         d = int (length vals) - 1;
         variance = jdiv ssq (Num (of_int (if d = 0 then 1 else d)))
     in \<lparr> g_name = fst e, g_n = length vals, g_mean = mean, g_ssq = ssq,
          g_variance = variance \<rparr>)"

text \<open>The body of the inner loop: the pooled-variance t-test of two groups.\<close>

definition comparePair :: "GroupSummary \<Rightarrow> GroupSummary \<Rightarrow> PairwiseComparison" where
  "comparePair g1 g2 =
    (let pooledVar =
           jdiv (jadd (jmul (Num (real_of_int (int (g_n g1) - 1))) (g_variance g1))
                      (jmul (Num (real_of_int (int (g_n g2) - 1))) (g_variance g2)))
                (Num (real_of_int (int (g_n g1) + int (g_n g2) - 2)));
         t = jdiv (jabs (jsub (g_mean g1) (g_mean g2)))
                  (jsqrt (jmul pooledVar
                     (jadd (jdiv (Num 1) (Num (real (g_n g1))))
                           (jdiv (Num 1) (Num (real (g_n g2)))))));
         pPair = getPFromT t (int (g_n g1) + int (g_n g2) - 2)
     in \<lparr> group1 = g_name g1, group2 = g_name g2, pw_p = pPair,
          sig = getSignificanceStars pPair \<rparr>)"

text \<open>The two nested loops over \<open>i < j < k\<close>.\<close>

definition pairwiseComparisons :: "GroupSummary list \<Rightarrow> PairwiseComparison list" where
  "pairwiseComparisons groupData =
    concat (map (\<lambda>i. map (\<lambda>j. comparePair (groupData ! i) (groupData ! j))
                          [i + 1 ..< length groupData])
                [0 ..< length groupData])"

text \<open>Sum of squares between and within the groups (the two \<open>groupData.reduce\<close>).\<close>

definition ssBetween :: "GroupSummary list \<Rightarrow> jsnum \<Rightarrow> jsnum" where
  "ssBetween groupData grandMean =
    foldl (\<lambda>acc g. jadd acc (jmul (Num (real (g_n g)))
                      (jmul (jsub (g_mean g) grandMean) (jsub (g_mean g) grandMean))))
          (Num 0) groupData"

definition ssWithin :: "GroupSummary list \<Rightarrow> jsnum" where
  "ssWithin groupData = foldl (\<lambda>acc g. jadd acc (g_ssq g)) (Num 0) groupData"

definition calculateGroupStats :: "group_input \<Rightarrow> GroupReport option" where
  "calculateGroupStats grps =
    (let k = length grps in
     if k < 2 then None
     else
       let allValues = concat (map snd grps);
           groupData = map groupSummary grps;
           grandMean = jdiv (jsum allValues) (Num (real (length allValues)));
           nTotal = length allValues;
           ssb = ssBetween groupData grandMean;
           ssw = ssWithin groupData;
           dfB' = int k - 1;
           dfW' = int nTotal - int k
       in
       if dfW' \<le> 0 then None
       else
         let msb = jdiv ssb (Num (of_int dfB'));
             msw = jdiv ssw (Num (of_int dfW'));
             f = jdiv msb msw;
             pGlobal = getPFromT (jsqrt f) dfW';
             eta = jdiv ssb (jadd ssb ssw)
         in Some \<lparr> test = (if k = 2 then ''Independent T-test'' else ''One-way ANOVA''),
                   f_stat = f, p_value = pGlobal, etaSq = eta, groups = groupData,
                   dfB = dfB', dfW = dfW',
                   pairwise_tests = (if k \<ge> 2 then pairwiseComparisons groupData else []) \<rparr>)"

section \<open>Raw values and the text conversions of the host language\<close>

text \<open>A cell of an imported table: \<open>null\<close>, \<open>undefined\<close>, a boolean, a number or a string.\<close>

datatype jsval = VNull | VUndef | VBool bool | VNum jsnum | VStr string

text \<open>
  The conversions between numbers and their text are part of the host language, not
  of the program. They are parameters of the model: \<open>number_to_string\<close> is
  \<open>Number.prototype.toString\<close>, \<open>string_to_number\<close> is \<open>Number\<close> applied to a
  string, \<open>parse_float\<close> is \<open>parseFloat\<close> applied to a string.
\<close>

record js_builtins =
  number_to_string :: "jsnum \<Rightarrow> string"
  string_to_number :: "string \<Rightarrow> jsnum"
  parse_float :: "string \<Rightarrow> jsnum"

text \<open>\<open>String(v)\<close> and \<open>Number(v)\<close> on a raw value.\<close>

fun js_String :: "js_builtins \<Rightarrow> jsval \<Rightarrow> string" where
  "js_String B VNull = ''null''"
| "js_String B VUndef = ''undefined''"
| "js_String B (VBool b) = (if b then ''true'' else ''false'')"
| "js_String B (VNum x) = number_to_string B x"
| "js_String B (VStr s) = s"

fun js_Number :: "js_builtins \<Rightarrow> jsval \<Rightarrow> jsnum" where
  "js_Number B VNull = Num 0"
| "js_Number B VUndef = NaN"
| "js_Number B (VBool b) = Num (if b then 1 else 0)"
| "js_Number B (VNum x) = x"
| "js_Number B (VStr s) = string_to_number B s"

text \<open>\<open>typeof v === 'number'\<close> and \<open>typeof v === 'boolean'\<close>.\<close>

fun is_number :: "jsval \<Rightarrow> bool" where
  "is_number (VNum _) = True"
| "is_number _ = False"

fun is_boolean :: "jsval \<Rightarrow> bool" where
  "is_boolean (VBool _) = True"
| "is_boolean _ = False"

text \<open>
  \<open>String.prototype.trim\<close>. A string is a list of 8-bit characters, read as the
  code points below 256; the white space among them is tab, line feed, vertical tab,
  form feed, carriage return, space and the no-break space \<open>U+00A0\<close>.
\<close>

definition is_ws :: "char \<Rightarrow> bool" where
  "is_ws c = (c \<in> set [CHR 0x09, CHR 0x0A, CHR 0x0B, CHR 0x0C, CHR 0x0D, CHR '' '', CHR 0xA0])"

definition js_trim :: "string \<Rightarrow> string" where
  "js_trim s = rev (dropWhile is_ws (rev (dropWhile is_ws s)))"

text \<open>
  An instance of the conversions for concrete evaluation, covering the unsigned
  decimal integers: a blank text converts to \<open>0\<close> under \<open>Number\<close>, a text of decimal
  digits to its value, \<open>parseFloat\<close> reads the leading digits after white space, and a
  natural number prints as its digits. It is used on such texts only.
\<close>

definition is_digit :: "char \<Rightarrow> bool" where
  "is_digit c = (c \<in> set ''0123456789'')"

definition digit_value :: "char \<Rightarrow> nat" where
  "digit_value c = of_char c - 48"

definition digits_value :: "string \<Rightarrow> nat" where
  "digits_value s = foldl (\<lambda>a c. 10 * a + digit_value c) 0 s"

fun digits_of :: "nat \<Rightarrow> string" where
  "digits_of n =
    (if n < 10 then [''0123456789'' ! n]
     else digits_of (n div 10) @ [''0123456789'' ! (n mod 10)])"

declare digits_of.simps [simp del]

definition dec_builtins :: js_builtins where
  "dec_builtins =
    \<lparr> number_to_string = (\<lambda>x. case x of
          Num r \<Rightarrow> digits_of (nat \<lfloor>r\<rfloor>)
        | PInf \<Rightarrow> ''Infinity'' | NInf \<Rightarrow> ''-Infinity'' | NaN \<Rightarrow> ''NaN''),
      string_to_number = (\<lambda>s. let t = js_trim s in
          if t = [] then Num 0
          else if list_all is_digit t then Num (real (digits_value t))
          else NaN),
      parse_float = (\<lambda>s. let ds = takeWhile is_digit (dropWhile is_ws s) in
          if ds = [] then NaN else Num (real (digits_value ds))) \<rparr>"

text \<open>
  A row of the table is an object from column name to raw value: a list of entries in
  key order; reading an absent key gives \<open>undefined\<close>.
\<close>

type_synonym row = "(string \<times> jsval) list"

definition row_get :: "row \<Rightarrow> string \<Rightarrow> jsval" where
  "row_get r key = (case map_of r key of None \<Rightarrow> VUndef | Some v \<Rightarrow> v)"

section \<open>Correlation\<close>

definition calculatePearson :: "jsnum list \<Rightarrow> jsnum list \<Rightarrow> jsnum" where
  "calculatePearson x y =
    (let n = length x in
     if n \<noteq> length y \<or> n = 0 then Num 0
     else
       let sumX = jsum x;
           sumY = jsum y;
           sumXY = foldl (\<lambda>sum i. jadd sum (jmul (x ! i) (y ! i))) (Num 0) [0 ..< n];
           sumX2 = foldl (\<lambda>sum xi. jadd sum (jmul xi xi)) (Num 0) x;
           sumY2 = foldl (\<lambda>sum yi. jadd sum (jmul yi yi)) (Num 0) y;
           numerator = jsub (jmul (Num (real n)) sumXY) (jmul sumX sumY);
           denominator = jsqrt (jmul (jsub (jmul (Num (real n)) sumX2) (jmul sumX sumX))
                                     (jsub (jmul (Num (real n)) sumY2) (jmul sumY sumY)))
       in if denominator = Num 0 then Num 0 else jdiv numerator denominator)"

definition calculatePValue :: "jsnum \<Rightarrow> nat \<Rightarrow> jsnum" where
  "calculatePValue r n =
    (if n \<le> 2 then Num 1
     else
       let t = jmul (jabs r)
                 (jsqrt (jdiv (Num (real_of_int (int n - 2))) (jsub (Num 1) (jmul r r))))
       in getPFromT t (int n - 2))"

record CorrelationResult =
  c_x :: string
  c_y :: string
  c_r :: jsnum
  c_p :: jsnum
  c_n :: nat
  significance :: string

text \<open>The rows in which both variables convert to a number other than \<open>NaN\<close>.\<close>

definition completePairs :: "js_builtins \<Rightarrow> row list \<Rightarrow> string \<Rightarrow> string \<Rightarrow> (jsnum \<times> jsnum) list" where
  "completePairs B data xVar yVar =
    filter (\<lambda>p. \<not> is_nan (fst p) \<and> \<not> is_nan (snd p))
      (map (\<lambda>r. (js_Number B (row_get r xVar), js_Number B (row_get r yVar))) data)"

text \<open>The body of the inner loop of \<open>getCorrelationMatrix\<close>.\<close>

definition correlationEntry :: "js_builtins \<Rightarrow> row list \<Rightarrow> string \<Rightarrow> string \<Rightarrow> CorrelationResult" where
  "correlationEntry B data xVar yVar =
    (let pairs = completePairs B data xVar yVar;
         xVals = map fst pairs;
         yVals = map snd pairs;
         r = calculatePearson xVals yVals;
         p = calculatePValue r (length pairs)
     in \<lparr> c_x = xVar, c_y = yVar, c_r = r, c_p = p, c_n = length pairs,
          significance = getSignificanceStars p \<rparr>)"

definition getCorrelationMatrix :: "js_builtins \<Rightarrow> row list \<Rightarrow> string list \<Rightarrow> CorrelationResult list" where
  "getCorrelationMatrix B data vars =
    concat (map (\<lambda>i. map (\<lambda>j. correlationEntry B data (vars ! i) (vars ! j))
                          [0 ..< length vars])
                [0 ..< length vars])"


section \<open>Summary statistics\<close>

datatype VariableType = numerical | categorical | unknown

record VariableStats =
  count :: nat
  missing :: nat
  unique :: nat
  mean :: "jsnum option"
  median :: "jsnum option"
  std :: "jsnum option"
  min_v :: "jsnum option"
  max_v :: "jsnum option"
  frequencies :: "(string \<rightharpoonup> nat) option"

text \<open>The filter of \<open>calculateSummaryStats\<close>: \<open>v !== null && v !== undefined && v !== ''\<close>.\<close>

definition is_present :: "jsval \<Rightarrow> bool" where
  "is_present v = (v \<noteq> VNull \<and> v \<noteq> VUndef \<and> v \<noteq> VStr [])"

text \<open>
  The filter of the later callers:
  \<open>v !== null && v !== undefined && String(v).trim() !== ''\<close>.
\<close>

definition is_present_trimmed :: "js_builtins \<Rightarrow> jsval \<Rightarrow> bool" where
  "is_present_trimmed B v = (v \<noteq> VNull \<and> v \<noteq> VUndef \<and> js_trim (js_String B v) \<noteq> [])"

text \<open>
  \<open>[...nums].sort((a, b) => a - b)\<close> on numbers other than \<open>NaN\<close>: a stable sort
  into ascending order.
\<close>

fun js_insert :: "jsnum \<Rightarrow> jsnum list \<Rightarrow> jsnum list" where
  "js_insert x [] = [x]"
| "js_insert x (y # ys) = (if jlt y x then y # js_insert x ys else x # y # ys)"

definition js_sort :: "jsnum list \<Rightarrow> jsnum list" where
  "js_sort xs = foldr js_insert xs []"

text \<open>The frequency table built by \<open>filtered.forEach\<close>.\<close>

definition countFrequencies :: "js_builtins \<Rightarrow> jsval list \<Rightarrow> (string \<rightharpoonup> nat)" where
  "countFrequencies B filtered =
    foldl (\<lambda>freqs v. let key = js_String B v
                      in freqs(key \<mapsto> (case freqs key of None \<Rightarrow> 0 | Some c \<Rightarrow> c) + 1))
          Map.empty filtered"

definition calculateSummaryStats :: "js_builtins \<Rightarrow> jsval list \<Rightarrow> VariableType \<Rightarrow> VariableStats" where
  "calculateSummaryStats B vals ty =
    (let filtered = filter is_present vals;
         n = length filtered;
         missing' = length vals - n;
         unique' = length (remdups filtered)
     in
     if ty = categorical \<or> ty = unknown then
       \<lparr> count = n, missing = missing', unique = unique',
         mean = None, median = None, std = None, min_v = None, max_v = None,
         frequencies = Some (countFrequencies B filtered) \<rparr>
     else
       let nums = filter (\<lambda>v. \<not> is_nan v) (map (js_Number B) filtered) in
       if length nums = 0 then
         \<lparr> count = 0, missing = length vals, unique = 0,
           mean = None, median = None, std = None, min_v = None, max_v = None,
           frequencies = None \<rparr>
       else
         let sorted = js_sort nums;
             sum = jsum nums;
             mean' = jdiv sum (Num (real (length nums)));
             median' = (if length sorted mod 2 = 0
                        then jdiv (jadd (sorted ! (length sorted div 2 - 1))
                                        (sorted ! (length sorted div 2))) (Num 2)
                        else sorted ! (length sorted div 2));
             sqDiffs = map (\<lambda>v. jmul (jsub v mean') (jsub v mean')) nums;
             std' = jsqrt (jdiv (jsum sqDiffs) (Num (real (length nums))))
         in \<lparr> count = n, missing = missing', unique = unique',
              mean = Some mean', median = Some median', std = Some std',
              min_v = Some (sorted ! 0), max_v = Some (sorted ! (length sorted - 1)),
              frequencies = None \<rparr>)"

section \<open>Variables, datasets and the type classifier\<close>

record DataVariable =
  v_name :: string
  v_type :: VariableType
  v_values :: "jsval list"
  v_stats :: VariableStats

record Dataset =
  d_filename :: string
  d_data :: "row list"
  d_variables :: "DataVariable list"
  d_numericalVariables :: "string list"
  d_categoricalVariables :: "string list"

text \<open>
  The classifier inside \<open>processRawData\<close> of \<open>components/FileUpload.tsx\<close>: the type of
  one column from its values.
\<close>

definition numericLike :: "js_builtins \<Rightarrow> jsval \<Rightarrow> bool" where
  "numericLike B v = (is_number v \<or> (\<not> is_nan (js_Number B v) \<and> \<not> is_boolean v))"

definition classifyColumn :: "js_builtins \<Rightarrow> jsval list \<Rightarrow> VariableType" where
  "classifyColumn B vals =
    (let nonNull = filter is_present vals in
     if length nonNull > 0
     then (if list_all (numericLike B) nonNull then numerical else categorical)
     else unknown)"

definition processRawData :: "js_builtins \<Rightarrow> row list \<Rightarrow> string \<Rightarrow> Dataset option" where
  "processRawData B rows fname =
    (if length rows = 0 then None
     else
       let headers = map fst (hd rows);
           variables = map (\<lambda>h. let vals = map (\<lambda>r. row_get r h) rows;
                                     ty = classifyColumn B vals
                                 in \<lparr> v_name = h, v_type = ty, v_values = vals,
                                      v_stats = calculateSummaryStats B vals ty \<rparr>) headers
       in Some \<lparr> d_filename = fname, d_data = rows, d_variables = variables,
                 d_numericalVariables =
                   map v_name (filter (\<lambda>v. v_type v = numerical) variables),
                 d_categoricalVariables =
                   map v_name (filter (\<lambda>v. v_type v = categorical) variables) \<rparr>)"

text \<open>
  The other version of \<open>processRawData\<close> in the repository, with the majority
  threshold: the type and the processed values of one column.
\<close>

definition numericLikeMajority :: "js_builtins \<Rightarrow> jsval \<Rightarrow> bool" where
  "numericLikeMajority B v = (\<not> is_nan (js_Number B v) \<and> \<not> is_boolean v)"

definition coerceNumber :: "js_builtins \<Rightarrow> jsval \<Rightarrow> jsval" where
  "coerceNumber B v =
    (if v = VNull \<or> v = VUndef \<or> js_trim (js_String B v) = [] then VNull
     else let num = js_Number B v in if is_nan num then VNull else VNum num)"

definition classifyColumnMajority :: "js_builtins \<Rightarrow> jsval list \<Rightarrow> VariableType \<times> jsval list" where
  "classifyColumnMajority B rawValues =
    (let nonNull = filter (is_present_trimmed B) rawValues in
     if length nonNull > 0 then
       let numericCount = length (filter (numericLikeMajority B) nonNull);
           isNumericMajority = (real numericCount / real (length nonNull) > 0.5)
       in if isNumericMajority then (numerical, map (coerceNumber B) rawValues)
          else (categorical, rawValues)
     else (categorical, rawValues))"

definition processRawDataMajority :: "js_builtins \<Rightarrow> row list \<Rightarrow> string \<Rightarrow> Dataset option" where
  "processRawDataMajority B rows fname =
    (if length rows = 0 then None
     else
       let headers = map fst (hd rows);
           variables = map (\<lambda>h. let rawValues = map (\<lambda>r. row_get r h) rows;
                                     (ty, processedValues) = classifyColumnMajority B rawValues
                                 in \<lparr> v_name = h, v_type = ty, v_values = processedValues,
                                      v_stats = calculateSummaryStats B processedValues ty \<rparr>)
                           headers;
           processedRows = map (\<lambda>(r, idx).
                                  foldl (\<lambda>newRow v. AList.update (v_name v) (v_values v ! idx) newRow)
                                        r variables)
                               (zip rows [0 ..< length rows])
       in Some \<lparr> d_filename = fname, d_data = processedRows, d_variables = variables,
                 d_numericalVariables =
                   map v_name (filter (\<lambda>v. v_type v = numerical) variables),
                 d_categoricalVariables =
                   map v_name (filter (\<lambda>v. v_type v = categorical) variables) \<rparr>)"

section \<open>Forced numeric re-classification\<close>

text \<open>The body of \<open>dataset.variables.map\<close> in \<open>forceNumericalAll\<close>.\<close>

definition parseOrNull :: "js_builtins \<Rightarrow> jsval \<Rightarrow> jsval" where
  "parseOrNull B v =
    (if v = VNull \<or> v = VUndef \<or> js_trim (js_String B v) = [] then VNull
     else let parsed = parse_float B (js_String B v)
          in if is_nan parsed then VNull else VNum parsed)"

definition forceVariable :: "js_builtins \<Rightarrow> DataVariable \<Rightarrow> DataVariable" where
  "forceVariable B v =
    (let nonNullValues = filter (is_present_trimmed B) (v_values v);
         numericCount = length (filter (\<lambda>val. \<not> is_nan (parse_float B (js_String B val)))
                                  nonNullValues);
         shouldBeNumeric = (numericCount > 0 \<and>
                            real numericCount / real (length nonNullValues) > 0.1)
     in if shouldBeNumeric \<or> v_type v = numerical then
          let numericValues = map (parseOrNull B) (v_values v)
          in v\<lparr> v_type := numerical, v_values := numericValues,
                v_stats := calculateSummaryStats B numericValues numerical \<rparr>
        else v)"

text \<open>The body of \<open>dataset.data.map\<close>: the cells of the numerical variables, parsed.\<close>

definition forceRow :: "js_builtins \<Rightarrow> DataVariable list \<Rightarrow> row \<Rightarrow> row" where
  "forceRow B updatedVariables r =
    foldl (\<lambda>newRow v.
             if v_type v = numerical then
               let val = row_get r (v_name v) in
               if val \<noteq> VNull \<and> val \<noteq> VUndef then
                 let parsed = parse_float B (js_String B val)
                 in AList.update (v_name v) (if is_nan parsed then VNull else VNum parsed) newRow
               else newRow
             else newRow)
          r updatedVariables"

text \<open>
  \<open>forceNumericalAll\<close> reads the current dataset and stores the new one; with no
  dataset loaded it does nothing.
\<close>

definition forceNumericalAll :: "js_builtins \<Rightarrow> Dataset option \<Rightarrow> Dataset option" where
  "forceNumericalAll B state =
    (case state of
       None \<Rightarrow> None
     | Some dataset \<Rightarrow>
         let updatedVariables = map (forceVariable B) (d_variables dataset);
             updatedData = map (forceRow B updatedVariables) (d_data dataset)
         in Some (dataset\<lparr> d_data := updatedData, d_variables := updatedVariables,
                   d_numericalVariables :=
                     map v_name (filter (\<lambda>v. v_type v = numerical) updatedVariables),
                   d_categoricalVariables :=
                     map v_name (filter (\<lambda>v. v_type v = categorical) updatedVariables) \<rparr>))"

text \<open>
  The conversions round-trip on a value: when \<open>parseFloat(String(v))\<close> is a number
  \<open>y\<close> other than \<open>NaN\<close>, the text of \<open>y\<close> is not blank and parses back to \<open>y\<close>.
\<close>

definition roundtrips :: "js_builtins \<Rightarrow> jsval \<Rightarrow> bool" where
  "roundtrips B v =
    (let y = parse_float B (js_String B v)
     in is_nan y \<or> (js_trim (number_to_string B y) \<noteq> [] \<and>
                    parse_float B (number_to_string B y) = y))"

text \<open>The fraction of the entries of a list that satisfy a predicate.\<close>

definition numericFraction :: "('a \<Rightarrow> bool) \<Rightarrow> 'a list \<Rightarrow> real" where
  "numericFraction P xs = real (length (filter P xs)) / real (length xs)"

section \<open>Binary64 rounding\<close>

text \<open>
  The operations \<open>+\<close>, \<open>-\<close>, \<open>*\<close>, \<open>/\<close> and \<open>Math.sqrt\<close> of the host return the
  exact result rounded to the nearest binary64 value, a tie going to the value with the
  even significand. \<open>round_half_even\<close> rounds a real number to the nearest integer
  in this way. \<open>ulp_of x\<close> is the distance between the binary64 values around
  \<open>x\<close>: \<open>2 ^ (e - 52)\<close> for \<open>2 ^ e \<le> |x| < 2 ^ (e + 1)\<close>, and \<open>2 ^ (- 1074)\<close> below
  \<open>2 ^ (- 1022)\<close>. A rounded value of magnitude \<open>2 ^ 1024\<close> or more is an infinity.
\<close>

definition round_half_even :: "real \<Rightarrow> int" where
  "round_half_even x =
    (let f = \<lfloor>x\<rfloor>; d = x - real_of_int f
     in if d < 1 / 2 then f else if 1 / 2 < d then f + 1 else if even f then f else f + 1)"

definition ulp_of :: "real \<Rightarrow> real" where
  "ulp_of x = 2 powr real_of_int (max \<lfloor>log 2 \<bar>x\<bar>\<rfloor> (- 1022) - 52)"

definition double_limit :: real where
  "double_limit = 2 ^ 1024"

definition binary64 :: "real \<Rightarrow> jsnum" where
  "binary64 x =
    (if x = 0 then Num 0
     else
       let v = real_of_int (round_half_even (x / ulp_of x)) * ulp_of x
       in if double_limit \<le> \<bar>v\<bar> then (if 0 < x then PInf else NInf) else Num v)"

text \<open>A rounded operation is the operation of the number model followed by the rounding.\<close>

definition round64 :: "jsnum \<Rightarrow> jsnum" where
  "round64 a = (case a of Num x \<Rightarrow> binary64 x | _ \<Rightarrow> a)"

definition add64 :: "jsnum \<Rightarrow> jsnum \<Rightarrow> jsnum" where
  "add64 a b = round64 (jadd a b)"

definition sub64 :: "jsnum \<Rightarrow> jsnum \<Rightarrow> jsnum" where
  "sub64 a b = round64 (jsub a b)"

definition mul64 :: "jsnum \<Rightarrow> jsnum \<Rightarrow> jsnum" where
  "mul64 a b = round64 (jmul a b)"

definition div64 :: "jsnum \<Rightarrow> jsnum \<Rightarrow> jsnum" where
  "div64 a b = round64 (jdiv a b)"

definition sqrt64 :: "jsnum \<Rightarrow> jsnum" where
  "sqrt64 a = round64 (jsqrt a)"

text \<open>\<open>calculatePearson\<close> with every operation rounded.\<close>

definition calculatePearson64 :: "jsnum list \<Rightarrow> jsnum list \<Rightarrow> jsnum" where
  "calculatePearson64 x y =
    (let n = length x in
     if n \<noteq> length y \<or> n = 0 then Num 0
     else
       let sumX = foldl add64 (Num 0) x;
           sumY = foldl add64 (Num 0) y;
           sumXY = foldl (\<lambda>sum i. add64 sum (mul64 (x ! i) (y ! i))) (Num 0) [0 ..< n];
           sumX2 = foldl (\<lambda>sum xi. add64 sum (mul64 xi xi)) (Num 0) x;
           sumY2 = foldl (\<lambda>sum yi. add64 sum (mul64 yi yi)) (Num 0) y;
           numerator = sub64 (mul64 (Num (real n)) sumXY) (mul64 sumX sumY);
           denominator = sqrt64 (mul64 (sub64 (mul64 (Num (real n)) sumX2) (mul64 sumX sumX))
                                       (sub64 (mul64 (Num (real n)) sumY2) (mul64 sumY sumY)))
       in if denominator = Num 0 then Num 0 else div64 numerator denominator)"

text \<open>
  The column \<open>[100000000, 100000001, 100000002]\<close> and the rows
  \<open>[{x: 100000000}, {x: 100000001}, {x: 100000002}]\<close> that hold it.
\<close>

definition example_large :: "jsnum list" where
  "example_large = [Num 100000000, Num 100000001, Num 100000002]"

definition example_rows_large :: "row list" where
  "example_rows_large =
    [[(''x'', VNum (Num 100000000))], [(''x'', VNum (Num 100000001))],
     [(''x'', VNum (Num 100000002))]]"

section \<open>Example inputs\<close>


text \<open>
  The rows \<open>[{x: Infinity}, {x: 1}, {x: 2}]\<close>; a cell \<open>Infinity\<close> of a CSV file is
  read as this number.
\<close>

definition example_rows_infinity :: "row list" where
  "example_rows_infinity =
    [[(''x'', VNum PInf)], [(''x'', VNum (Num 1))], [(''x'', VNum (Num 2))]]"

text \<open>
  A dataset of one categorical variable whose cells are the texts \<open>"12"\<close>, \<open>"abc"\<close>,
  the absence marker, a blank text and the number \<open>7\<close>.
\<close>

definition example_dataset :: Dataset where
  "example_dataset =
    \<lparr> d_filename = ''t.csv'',
      d_data = [[(''age'', VStr ''12'')], [(''age'', VStr ''abc'')], [(''age'', VNull)],
                [(''age'', VStr '' '')], [(''age'', VNum (Num 7))]],
      d_variables =
        [\<lparr> v_name = ''age'', v_type = categorical,
           v_values = [VStr ''12'', VStr ''abc'', VNull, VStr '' '', VNum (Num 7)],
           v_stats = calculateSummaryStats dec_builtins
                       [VStr ''12'', VStr ''abc'', VNull, VStr '' '', VNum (Num 7)] categorical \<rparr>],
      d_numericalVariables = [],
      d_categoricalVariables = [''age''] \<rparr>"


section \<open>Properties of the number model\<close>

lemma is_finite_iff: "is_finite a \<longleftrightarrow> (\<exists>r. a = Num r)"
  by (cases a) auto

section \<open>Properties of the group statistics\<close>

lemma groupSummary_simps:
  "g_name (groupSummary e) = fst e" "g_n (groupSummary e) = length (snd e)"
  by (simp_all add: groupSummary_def Let_def)

lemma clamp_Num: "\<exists>q. jmin (jmax (Num p) (Num 0)) (Num 1) = Num q \<and> 0 \<le> q \<and> q \<le> 1"
  by (auto simp: jmin_def jmax_def)

lemma getPFromT_finite:
  "\<exists>q. getPFromT (Num r) df = Num q \<and> 0 \<le> q \<and> q \<le> 1"
proof (cases "df \<le> 0")
  case True
  then show ?thesis by (simp add: getPFromT_def)
next
  case False
  have d1: "1 + 0.2316419 * \<bar>r\<bar> \<noteq> 0"
  proof -
    have "0 \<le> 0.2316419 * \<bar>r\<bar>" by simp
    then show ?thesis by linarith
  qed
  have d2: "sqrt (2 * pi) \<noteq> 0" by simp
  have d3: "4 * real_of_int df \<noteq> 0" using False by simp
  show ?thesis
    using False d1 d2 d3
    by (simp add: getPFromT_def Let_def jsub_def clamp_Num)
qed



lemma in_unit_interval_Num: "in_unit_interval (Num q) \<longleftrightarrow> 0 \<le> q \<and> q \<le> 1"
  by (auto simp: in_unit_interval_def jle_def)

lemma getPFromT_degenerate: "df \<le> 0 \<Longrightarrow> getPFromT t df = Num 1"
  by (simp add: getPFromT_def)

lemma stars_one: "getSignificanceStars (Num 1) = ''''"
  by (simp add: getSignificanceStars_def)

lemma comparePair_singletons:
  "g_n g1 = 1 \<Longrightarrow> g_n g2 = 1 \<Longrightarrow>
   comparePair g1 g2 = \<lparr> group1 = g_name g1, group2 = g_name g2, pw_p = Num 1, sig = '''' \<rparr>"
  by (simp add: comparePair_def Let_def getPFromT_degenerate stars_one)

lemma comparePair_names:
  "group1 (comparePair g1 g2) = g_name g1" "group2 (comparePair g1 g2) = g_name g2"
  by (simp_all add: comparePair_def Let_def)

lemma pairwiseComparisons_mem:
  assumes "i < j" and "j < length gd"
  shows "comparePair (gd ! i) (gd ! j) \<in> set (pairwiseComparisons gd)"
proof -
  have "\<exists>x\<in>{0..<length gd}. comparePair (gd ! i) (gd ! j)
          \<in> (\<lambda>xa. comparePair (gd ! x) (gd ! xa)) ` {Suc x..<length gd}"
  proof (rule bexI [where x = i])
    show "comparePair (gd ! i) (gd ! j)
          \<in> (\<lambda>xa. comparePair (gd ! i) (gd ! xa)) ` {Suc i..<length gd}"
      using assms by (intro image_eqI [where x = j]) simp_all
    show "i \<in> {0..<length gd}" using assms by simp
  qed
  then show ?thesis
    by (simp add: pairwiseComparisons_def)
qed

lemma pairwiseComparisons_elim:
  assumes "pc \<in> set (pairwiseComparisons gd)"
  shows "\<exists>i j. i < j \<and> j < length gd \<and> pc = comparePair (gd ! i) (gd ! j)"
proof -
  from assms obtain i j where "i < length gd" "Suc i \<le> j" "j < length gd"
      "pc = comparePair (gd ! i) (gd ! j)"
    by (auto simp: pairwiseComparisons_def)
  then show ?thesis
    by (intro exI [of _ i] exI [of _ j]) simp
qed


subsection \<open>When a report exists\<close>





subsection \<open>The p-values of a report\<close>

text \<open>
  On every t-statistic other than \<open>NaN\<close> the result of \<open>getPFromT\<close> lies in
  \<open>[0, 1]\<close>; on \<open>NaN\<close> with positive degrees of freedom it is \<open>NaN\<close>.
\<close>

lemma getPFromT_infinite:
  "0 < df \<Longrightarrow> getPFromT PInf df = Num 0" "0 < df \<Longrightarrow> getPFromT NInf df = Num 0"
  by (simp_all add: getPFromT_def Let_def jsub_def inf_of_sign_def jmax_def jmin_def)

lemma getPFromT_unit:
  assumes "\<not> is_nan t"
  shows "in_unit_interval (getPFromT t df)"
proof (cases t)
  case (Num r)
  with getPFromT_finite [of r df] show ?thesis
    by (auto simp: in_unit_interval_Num)
next
  case PInf
  then show ?thesis
    using getPFromT_infinite(1) [of df] getPFromT_degenerate [of df t]
    by (cases "df \<le> 0") (simp_all add: in_unit_interval_Num)
next
  case NInf
  then show ?thesis
    using getPFromT_infinite(2) [of df] getPFromT_degenerate [of df t]
    by (cases "df \<le> 0") (simp_all add: in_unit_interval_Num)
next
  case NaN
  with assms show ?thesis by simp
qed

lemma getPFromT_nan: "0 < df \<Longrightarrow> getPFromT NaN df = NaN"
  by (simp add: getPFromT_def Let_def jsub_def jmax_def jmin_def)

text \<open>
  Claim C2. Every p-value should lie in \<open>[0, 1]\<close>. \<open>getPFromT\<close> clamps its result
  with \<open>Math.min(Math.max(p, 0), 1)\<close>, which lets \<open>NaN\<close> through. For the groups
  \<open>{A: [1, 1], B: [1, 1]}\<close> the mean square within is \<open>0\<close>, \<open>f = 0/0\<close>, and both the
  global p-value and the p-value of the single pairwise comparison are \<open>NaN\<close>, which
  lies in no interval.
\<close>

theorem p_value_nan:
  "map_option p_value (calculateGroupStats [(''A'', [Num 1, Num 1]), (''B'', [Num 1, Num 1])])
     = Some NaN
   \<and> map_option (map pw_p \<circ> pairwise_tests)
        (calculateGroupStats [(''A'', [Num 1, Num 1]), (''B'', [Num 1, Num 1])]) = Some [NaN]
   \<and> \<not> in_unit_interval NaN"
  by (simp add: calculateGroupStats_def ssBetween_def ssWithin_def groupSummary_def jsum_def
        jsub_def Let_def inf_of_sign_def getPFromT_def jmax_def jmin_def
        pairwiseComparisons_def comparePair_def upt_rec in_unit_interval_def jle_def)

subsection \<open>The effect size\<close>

text \<open>
  Claim C3. The effect size \<open>etaSq = ssb / (ssb + ssw)\<close> should lie in \<open>[0, 1]\<close>
  whenever a report is produced. The division has no guard: for the groups
  \<open>{A: [1, 1], B: [1, 1]}\<close> a report is produced, both sums of squares are \<open>0\<close> and
  \<open>etaSq = 0/0\<close> is \<open>NaN\<close>, which lies in no interval. It is the zero of the sums of
  squares that also makes \<open>f\<close> and the p-values \<open>NaN\<close>.
\<close>

theorem etaSq_nan:
  "map_option etaSq (calculateGroupStats [(''A'', [Num 1, Num 1]), (''B'', [Num 1, Num 1])])
     = Some NaN
   \<and> map_option f_stat (calculateGroupStats [(''A'', [Num 1, Num 1]), (''B'', [Num 1, Num 1])])
     = Some NaN
   \<and> \<not> in_unit_interval NaN"
  by (simp add: calculateGroupStats_def ssBetween_def ssWithin_def groupSummary_def jsum_def
        jsub_def Let_def inf_of_sign_def in_unit_interval_def jle_def)

subsection \<open>Pairwise comparison of two single-observation groups\<close>

text \<open>
  Claim C9. Whenever a report is produced, for every pair of groups that each hold
  exactly one observation the report contains the comparison record of the pair with
  \<open>p = 1\<close> and \<open>sig = ""\<close>; the labels of a mapping being distinct, every record of
  the report that names the two groups is that record.
\<close>

theorem pairwise_singletons_neutral:
  assumes rep: "calculateGroupStats grps = Some rep"
    and ij: "i < j" "j < length grps"
    and one: "length (snd (grps ! i)) = 1" "length (snd (grps ! j)) = 1"
    and dist: "distinct (map fst grps)"
  shows "\<lparr> group1 = fst (grps ! i), group2 = fst (grps ! j), pw_p = Num 1, sig = '''' \<rparr>
           \<in> set (pairwise_tests rep)
         \<and> (\<forall>pc\<in>set (pairwise_tests rep).
               group1 pc = fst (grps ! i) \<and> group2 pc = fst (grps ! j) \<longrightarrow>
               pw_p pc = Num 1 \<and> sig pc = '''')"
proof
  let ?gd = "map groupSummary grps"
  let ?neutral = "\<lparr> group1 = fst (grps ! i), group2 = fst (grps ! j), pw_p = Num 1, sig = '''' \<rparr>"
  have pw: "pairwise_tests rep = pairwiseComparisons ?gd"
    using rep by (auto simp: calculateGroupStats_def Let_def split: if_splits)
  have cmp: "comparePair (?gd ! i) (?gd ! j) = ?neutral"
    using ij one by (simp add: comparePair_singletons groupSummary_simps)
  have "comparePair (?gd ! i) (?gd ! j) \<in> set (pairwiseComparisons ?gd)"
    using ij by (intro pairwiseComparisons_mem) simp_all
  then show "?neutral \<in> set (pairwise_tests rep)"
    using cmp pw by simp
  show "\<forall>pc\<in>set (pairwise_tests rep).
          group1 pc = fst (grps ! i) \<and> group2 pc = fst (grps ! j) \<longrightarrow>
          pw_p pc = Num 1 \<and> sig pc = ''''"
  proof (intro ballI impI)
    fix pc
    assume mem: "pc \<in> set (pairwise_tests rep)"
      and nm: "group1 pc = fst (grps ! i) \<and> group2 pc = fst (grps ! j)"
    from mem pw obtain i' j' where ij': "i' < j'" "j' < length ?gd"
        "pc = comparePair (?gd ! i') (?gd ! j')"
      using pairwiseComparisons_elim [of pc ?gd] by auto
    from ij' nm have n1: "fst (grps ! i') = fst (grps ! i)" and n2: "fst (grps ! j') = fst (grps ! j)"
      by (simp_all add: comparePair_names groupSummary_simps)
    have "i' = i"
      using nth_eq_iff_index_eq [OF dist, of i' i] ij ij' n1 by simp
    moreover have "j' = j"
      using nth_eq_iff_index_eq [OF dist, of j' j] ij ij' n2 by simp
    ultimately have "i' = i" "j' = j" by simp_all
    with ij' cmp show "pw_p pc = Num 1 \<and> sig pc = ''''" by simp
  qed
qed

theorem pairwise_singletons_neutral_witness:
  "calculateGroupStats [(''A'', [Num 1]), (''B'', [Num 2]), (''C'', [Num 1, Num 2, Num 3])] \<noteq> None
   \<and> (0::nat) < 1 \<and> 1 < length [(''A'', [Num 1]), (''B'', [Num 2]), (''C'', [Num 1, Num 2, Num 3])]
   \<and> length (snd ([(''A'', [Num 1]), (''B'', [Num 2]), (''C'', [Num 1, Num 2, Num 3])] ! 0)) = 1
   \<and> length (snd ([(''A'', [Num 1]), (''B'', [Num 2]), (''C'', [Num 1, Num 2, Num 3])] ! 1)) = 1
   \<and> distinct (map fst [(''A'', [Num 1]), (''B'', [Num 2]), (''C'', [Num 1, Num 2, Num 3])])
   \<and> \<lparr> group1 = ''A'', group2 = ''B'', pw_p = Num 1, sig = '''' \<rparr>
       \<in> set (pairwise_tests (the (calculateGroupStats
             [(''A'', [Num 1]), (''B'', [Num 2]), (''C'', [Num 1, Num 2, Num 3])])))"
proof -
  let ?g = "[(''A'', [Num 1]), (''B'', [Num 2]), (''C'', [Num (1::real), Num 2, Num 3])]"
  have h: "calculateGroupStats ?g \<noteq> None"
    by (simp add: calculateGroupStats_def Let_def)
  then obtain rep where rep: "calculateGroupStats ?g = Some rep" by blast
  have "\<lparr> group1 = fst (?g ! 0), group2 = fst (?g ! 1), pw_p = Num 1, sig = '''' \<rparr>
          \<in> set (pairwise_tests rep)"
    using pairwise_singletons_neutral [OF rep, of 0 1] by simp
  with h rep show ?thesis by simp
qed

section \<open>Properties of the correlation engine\<close>











subsection \<open>The coefficient is finite or \<open>NaN\<close>\<close>












subsection \<open>Symmetry of the correlation matrix\<close>




subsection \<open>The correlation of a variable with itself\<close>

text \<open>
  Claim C10. The self-pair of a variable with a finite value and a variance other than
  zero should have \<open>r = 1\<close>. \<open>getCorrelationMatrix\<close> drops the rows that convert to
  \<open>NaN\<close> and keeps an infinity: for the column \<open>[Infinity, 1, 2]\<close> the sums are
  infinite, numerator and denominator are \<open>\<infinity> - \<infinity>\<close>, and \<open>r(x, x)\<close> is \<open>NaN\<close>
  with \<open>n = 3\<close>. No rounding occurs in this evaluation. A finite column on which
  rounding gives \<open>r(x, x) = 0\<close> follows in the next section.
\<close>

theorem self_correlation_nan:
  "map c_r (getCorrelationMatrix dec_builtins example_rows_infinity [''x'']) = [NaN]
   \<and> map c_n (getCorrelationMatrix dec_builtins example_rows_infinity [''x'']) = [3]"
  by (simp add: getCorrelationMatrix_def correlationEntry_def completePairs_def
        example_rows_infinity_def row_get_def Let_def calculatePearson_def jsum_def jsub_def
        inf_of_sign_def upt_rec)

section \<open>The correlation of a variable with itself under binary64 rounding\<close>

subsection \<open>Rounding\<close>

text \<open>An integer is rounded to itself, and the rounding is off by at most a half.\<close>

lemma round_half_even_int: "round_half_even (real_of_int z) = z"
  by (simp add: round_half_even_def)

lemma round_half_even_near: "\<bar>real_of_int (round_half_even y) - y\<bar> \<le> 1 / 2"
proof -
  define f where "f = \<lfloor>y\<rfloor>"
  have b: "real_of_int f \<le> y" "y < real_of_int f + 1"
    unfolding f_def by linarith+
  have r: "round_half_even y =
      (if y - real_of_int f < 1 / 2 then f
       else if 1 / 2 < y - real_of_int f then f + 1 else if even f then f else f + 1)"
    by (simp add: round_half_even_def Let_def f_def)
  show ?thesis
  proof (cases "y - real_of_int f < 1 / 2")
    case True
    with b r show ?thesis by simp
  next
    case False
    then have "round_half_even y = f \<and> y - real_of_int f = 1 / 2 \<or> round_half_even y = f + 1"
      using r by (auto split: if_splits)
    with b False show ?thesis by auto
  qed
qed

text \<open>The exponent and the spacing of a number of magnitude \<open>2 ^ 52\<close> or more.\<close>

lemma floor_log2:
  assumes "2 ^ e \<le> \<bar>x\<bar>" and "\<bar>x\<bar> < 2 ^ Suc e"
  shows "\<lfloor>log 2 \<bar>x\<bar>\<rfloor> = int e"
proof -
  have "0 < (2::real) ^ e" by simp
  with assms(1) have pos: "0 < \<bar>x\<bar>" by linarith
  have "2 powr real_of_int (int e) \<le> \<bar>x\<bar>" using assms(1) by (simp add: powr_realpow)
  moreover have "\<bar>x\<bar> < 2 powr real_of_int (int e + 1)"
  proof -
    have "real_of_int (int e + 1) = real (Suc e)" by simp
    then show ?thesis using assms(2) by (simp only: powr_realpow zero_less_numeral)
  qed
  ultimately show ?thesis
    using floor_log_eq_powr_iff [of "\<bar>x\<bar>" 2 "int e"] pos by simp
qed

lemma ulp_of_big:
  assumes "52 \<le> e" and "2 ^ e \<le> \<bar>x\<bar>" and "\<bar>x\<bar> < 2 ^ Suc e"
  shows "ulp_of x = 2 ^ (e - 52)"
proof -
  have fl: "\<lfloor>log 2 \<bar>x\<bar>\<rfloor> = int e" using assms(2,3) by (rule floor_log2)
  have "max (int e) (- 1022) - 52 = int (e - 52)" using assms(1) by simp
  then have "ulp_of x = 2 powr real_of_int (int (e - 52))"
    unfolding ulp_of_def fl by (rule arg_cong)
  then show ?thesis by (simp add: powr_realpow)
qed

text \<open>
  Between \<open>2 ^ 52\<close> and \<open>2 ^ 1023\<close> a number is rounded to a multiple of its spacing and
  does not overflow.
\<close>

lemma binary64_big:
  assumes e: "52 \<le> e" "e < 1023" and lo: "2 ^ e \<le> \<bar>x\<bar>" and hi: "\<bar>x\<bar> < 2 ^ Suc e"
  shows "binary64 x = Num (real_of_int (round_half_even (x / 2 ^ (e - 52))) * 2 ^ (e - 52))"
proof -
  have "0 < (2::real) ^ e" by simp
  with lo have "0 < \<bar>x\<bar>" by linarith
  then have x0: "x \<noteq> 0" by auto
  have q: "ulp_of x = 2 ^ (e - 52)" using e(1) lo hi by (rule ulp_of_big)
  let ?q = "(2::real) ^ (e - 52)"
  let ?v = "real_of_int (round_half_even (x / ?q)) * ?q"
  have qpos: "0 < ?q" by simp
  have "\<bar>real_of_int (round_half_even (x / ?q)) - x / ?q\<bar> \<le> 1 / 2"
    by (rule round_half_even_near)
  then have "\<bar>real_of_int (round_half_even (x / ?q)) - x / ?q\<bar> * ?q \<le> 1 / 2 * ?q"
    using qpos by (intro mult_right_mono) simp_all
  moreover have "\<bar>real_of_int (round_half_even (x / ?q)) - x / ?q\<bar> * ?q = \<bar>?v - x\<bar>"
  proof -
    have "\<bar>real_of_int (round_half_even (x / ?q)) - x / ?q\<bar> * ?q
            = \<bar>(real_of_int (round_half_even (x / ?q)) - x / ?q) * ?q\<bar>"
      using qpos by (simp add: abs_mult)
    also have "(real_of_int (round_half_even (x / ?q)) - x / ?q) * ?q = ?v - x"
      using qpos by (simp add: left_diff_distrib)
    finally show ?thesis .
  qed
  ultimately have near: "\<bar>?v - x\<bar> \<le> ?q / 2" by simp
  have "?q \<le> 2 ^ e" by (intro power_increasing) simp_all
  moreover have "(2::real) ^ Suc e \<le> 2 ^ 1023" using e by (intro power_increasing) simp_all
  moreover have "(2::real) ^ e \<le> 2 ^ 1023" using e by (intro power_increasing) simp_all
  moreover have "(2::real) ^ 1024 = 2 * 2 ^ 1023" by simp
  ultimately have "\<bar>?v\<bar> < double_limit"
    unfolding double_limit_def using near hi qpos by (simp only: abs_if split: if_splits) linarith+
  then have "\<not> double_limit \<le> \<bar>?v\<bar>" by simp
  then show ?thesis
    unfolding binary64_def Let_def q using x0 by (simp only: if_False)
qed

text \<open>Every integer below \<open>2 ^ 53\<close> in magnitude is a binary64 value.\<close>

lemma binary64_int:
  assumes "\<bar>k\<bar> < 2 ^ 53"
  shows "binary64 (real_of_int k) = Num (real_of_int k)"
proof (cases "k = 0")
  case True
  then show ?thesis by (simp add: binary64_def)
next
  case False
  let ?x = "real_of_int k"
  have x0: "?x \<noteq> 0" using False by simp
  have x1: "1 \<le> \<bar>?x\<bar>" using False by (simp flip: of_int_abs)
  have x53: "\<bar>?x\<bar> < 2 ^ 53" using assms by (simp flip: of_int_abs)
  define e where "e = \<lfloor>log 2 \<bar>?x\<bar>\<rfloor>"
  have "0 \<le> log 2 \<bar>?x\<bar>" using x1 by simp
  then have e0: "0 \<le> e" by (simp add: e_def)
  have "\<bar>?x\<bar> < 2 powr 53"
    using x53 powr_realpow [of 2 53] by simp
  then have "log 2 \<bar>?x\<bar> < 53"
    using x1 by (simp add: log_less_iff)
  then have e52: "e \<le> 52" unfolding e_def by linarith
  define m where "m = nat (52 - e)"
  have "max e (- 1022) - 52 = - int m" using e0 e52 by (simp add: m_def)
  then have "ulp_of ?x = 2 powr real_of_int (- int m)"
    unfolding ulp_of_def e_def [symmetric] by (rule arg_cong)
  then have q: "ulp_of ?x = 1 / 2 ^ m"
    by (simp add: powr_minus_divide powr_realpow)
  have "?x / (1 / 2 ^ m) = real_of_int (k * 2 ^ m)" by simp
  then have r: "round_half_even (?x / (1 / 2 ^ m)) = k * 2 ^ m"
    by (simp only: round_half_even_int)
  have v: "real_of_int (k * 2 ^ m) * (1 / 2 ^ m) = ?x" by simp
  have "(2::real) ^ 53 \<le> 2 ^ 1024" by (intro power_increasing) simp_all
  with x53 have "\<not> double_limit \<le> \<bar>?x\<bar>" unfolding double_limit_def by linarith
  then show ?thesis
    unfolding binary64_def Let_def q r v using x0 by (simp only: if_False)
qed

lemma binary64_zero: "binary64 0 = Num 0"
  by (simp add: binary64_def)

subsection \<open>The column 100000000, 100000001, 100000002\<close>

text \<open>
  The sums of the column are exact. The square of \<open>100000001\<close> is odd and lies above
  \<open>2 ^ 53\<close>, where the spacing is 2: it is rounded down, to the even significand. The
  sums of the squares are exact again. The two products \<open>3 * 30000000600000004\<close> and
  \<open>300000003 * 300000003\<close> lie above \<open>2 ^ 56\<close>, where the spacing is 16, and are
  rounded to the same value.
\<close>

lemma binary64_example_values:
  "binary64 100000000 = Num 100000000"
  "binary64 200000001 = Num 200000001"
  "binary64 300000003 = Num 300000003"
  using binary64_int [of 100000000] binary64_int [of 200000001] binary64_int [of 300000003]
  by simp_all

lemma binary64_example_squares:
  "binary64 10000000000000000 = Num 10000000000000000"
  "binary64 10000000200000001 = Num 10000000200000000"
  "binary64 10000000400000004 = Num 10000000400000004"
  using binary64_big [of 53 10000000000000000] binary64_big [of 53 10000000200000001]
    binary64_big [of 53 10000000400000004]
  by (simp_all add: round_half_even_def)

lemma binary64_example_sums:
  "binary64 20000000200000000 = Num 20000000200000000"
  "binary64 30000000600000004 = Num 30000000600000004"
  using binary64_big [of 54 20000000200000000] binary64_big [of 54 30000000600000004]
  by (simp_all add: round_half_even_def)

lemma binary64_example_products:
  "binary64 90000001800000012 = Num 90000001800000016"
  "binary64 90000001800000009 = Num 90000001800000016"
  using binary64_big [of 56 90000001800000012] binary64_big [of 56 90000001800000009]
  by (simp_all add: round_half_even_def)

text \<open>
  \<open>getCorrelationMatrix\<close> passes the column to \<open>calculatePearson\<close> as both arguments.
  In exact arithmetic the coefficient is 1. With the operations rounded, numerator and
  denominator are 0 and the guard on the denominator returns 0.
\<close>

lemma example_rows_large_pairs:
  "map fst (completePairs dec_builtins example_rows_large ''x'' ''x'') = example_large
   \<and> map snd (completePairs dec_builtins example_rows_large ''x'' ''x'') = example_large"
  by (simp add: completePairs_def example_rows_large_def example_large_def row_get_def)

lemma calculatePearson_example_large: "calculatePearson example_large example_large = Num 1"
proof -
  have s: "sqrt 36 = 6"
    using real_sqrt_abs [of 6] by simp
  show ?thesis
    by (simp add: calculatePearson_def example_large_def Let_def upt_rec jsum_def jsub_def s)
qed

lemma calculatePearson64_example: "calculatePearson64 example_large example_large = Num 0"
  by (simp add: calculatePearson64_def example_large_def Let_def upt_rec
      add64_def sub64_def mul64_def sqrt64_def round64_def jsub_def
      binary64_zero binary64_example_values binary64_example_squares
      binary64_example_sums binary64_example_products)

section \<open>Properties of the summary statistics\<close>

subsection \<open>Every value is counted once\<close>

text \<open>
  Claim C6. For every list of values and every declared kind, the statistics returned
  by \<open>calculateSummaryStats\<close> satisfy \<open>count + missing = values.length\<close>: in the
  categorical branch, in the branch of the empty numeric pool and in the numeric branch.
\<close>

theorem count_plus_missing:
  "count (calculateSummaryStats B vals ty) + missing (calculateSummaryStats B vals ty) = length vals"
proof -
  have "length (filter is_present vals) \<le> length vals" by (rule length_filter_le)
  then show ?thesis
    by (simp add: calculateSummaryStats_def Let_def)
qed

subsection \<open>Which values are missing\<close>

text \<open>
  Claim C4. A value whose text is blank after trimming should count as missing.
  \<open>calculateSummaryStats\<close> filters with \<open>v !== ''\<close> and does not trim: the column
  \<open>["  "]\<close> has \<open>count = 1\<close> and \<open>missing = 0\<close>, and in the numerical column
  \<open>["  ", 4]\<close> the blank cell enters the numeric pool as \<open>0\<close>, so that
  \<open>count = 2\<close>, \<open>missing = 0\<close> and \<open>mean = 2\<close>; the filter of the callers,
  \<open>String(v).trim() !== ''\<close>, takes the same cell for missing.
\<close>

theorem whitespace_counts_as_value:
  "count (calculateSummaryStats dec_builtins [VStr ''  ''] categorical) = 1
   \<and> missing (calculateSummaryStats dec_builtins [VStr ''  ''] categorical) = 0
   \<and> count (calculateSummaryStats dec_builtins [VStr ''  '', VNum (Num 4)] numerical) = 2
   \<and> missing (calculateSummaryStats dec_builtins [VStr ''  '', VNum (Num 4)] numerical) = 0
   \<and> mean (calculateSummaryStats dec_builtins [VStr ''  '', VNum (Num 4)] numerical) = Some (Num 2)
   \<and> \<not> is_present_trimmed dec_builtins (VStr ''  '')"
  by (simp add: calculateSummaryStats_def Let_def is_present_def is_present_trimmed_def
        dec_builtins_def js_trim_def is_ws_def jsum_def)

section \<open>Properties of the type classifier\<close>

lemma fraction_one_iff:
  assumes "xs \<noteq> []"
  shows "numericFraction P xs = 1 \<longleftrightarrow> list_all P xs"
proof -
  have "length (filter P xs) = length xs \<longleftrightarrow> list_all P xs"
    by (metis filter_id_conv length_filter_le list_all_iff filter_True length_filter_less not_less_iff_gr_or_eq)
  then show ?thesis using assms by (auto simp: numericFraction_def)
qed

text \<open>
  Claim C7, as the code has it. The classifier of \<open>components/FileUpload.tsx\<close> marks
  a column numerical exactly when it has a non-missing value and the fraction of its
  non-missing values that are numeric-like is \<open>1\<close> (the unanimous threshold), and
  gives a column with no non-missing value the type \<open>unknown\<close>. The majority version
  of the classifier marks a column numerical exactly when it has a non-missing value
  and the fraction of its non-missing values that are numeric-like strictly exceeds
  \<open>0.5\<close>, and classifies a column with no non-missing value as categorical. In both,
  a value is numeric-like when it is not a boolean and \<open>Number\<close> of it is not
  \<open>NaN\<close> (the first also takes every value of type number).
\<close>

theorem classifier_thresholds:
  "(classifyColumn B vals = numerical \<longleftrightarrow>
      filter is_present vals \<noteq> [] \<and>
      numericFraction (numericLike B) (filter is_present vals) = 1)
   \<and> (classifyColumn B vals = unknown \<longleftrightarrow> filter is_present vals = [])
   \<and> (fst (classifyColumnMajority B vals) = numerical \<longleftrightarrow>
        filter (is_present_trimmed B) vals \<noteq> [] \<and>
        numericFraction (numericLikeMajority B) (filter (is_present_trimmed B) vals) > 1 / 2)
   \<and> (filter (is_present_trimmed B) vals = [] \<longrightarrow>
        fst (classifyColumnMajority B vals) = categorical)"
proof (intro conjI)
  show "classifyColumn B vals = numerical \<longleftrightarrow>
      filter is_present vals \<noteq> [] \<and>
      numericFraction (numericLike B) (filter is_present vals) = 1"
    using fraction_one_iff [of "filter is_present vals" "numericLike B"]
    by (auto simp: classifyColumn_def Let_def)
  show "classifyColumn B vals = unknown \<longleftrightarrow> filter is_present vals = []"
    by (auto simp: classifyColumn_def Let_def)
  show "fst (classifyColumnMajority B vals) = numerical \<longleftrightarrow>
        filter (is_present_trimmed B) vals \<noteq> [] \<and>
        numericFraction (numericLikeMajority B) (filter (is_present_trimmed B) vals) > 1 / 2"
    by (auto simp: classifyColumnMajority_def Let_def numericFraction_def)
  show "filter (is_present_trimmed B) vals = [] \<longrightarrow>
        fst (classifyColumnMajority B vals) = categorical"
    by (auto simp: classifyColumnMajority_def Let_def)
qed

theorem classifier_thresholds_witness:
  "filter (is_present_trimmed dec_builtins) [VNull, VStr ''  ''] = []
   \<and> fst (classifyColumnMajority dec_builtins [VNull, VStr ''  '']) = categorical"
proof -
  have h: "filter (is_present_trimmed dec_builtins) [VNull, VStr ''  ''] = []"
    by (simp add: is_present_trimmed_def js_trim_def is_ws_def)
  with classifier_thresholds [of dec_builtins "[VNull, VStr ''  '']"] show ?thesis
    by blast
qed

text \<open>
  Against the classifier of \<open>components/FileUpload.tsx\<close> the claim fails: in the column
  \<open>[1, 2, true]\<close> two of three non-missing values are numeric-like and the column is
  categorical; the empty column is \<open>unknown\<close>, not categorical.
\<close>

theorem classifier_thresholds_counterexample:
  "numericFraction (numericLike dec_builtins)
      (filter is_present [VNum (Num 1), VNum (Num 2), VBool True]) > 0.5
   \<and> classifyColumn dec_builtins [VNum (Num 1), VNum (Num 2), VBool True] = categorical
   \<and> classifyColumn dec_builtins [] = unknown"
  by (simp add: classifyColumn_def is_present_def numericLike_def numericFraction_def)

text \<open>The variables of a loaded dataset carry the types the classifiers give.\<close>

lemma processRawData_types:
  assumes "processRawData B rows fname = Some ds"
  shows "map v_type (d_variables ds) =
           map (\<lambda>h. classifyColumn B (map (\<lambda>r. row_get r h) rows)) (map fst (hd rows))"
  using assms by (auto simp: processRawData_def Let_def split: if_splits)

lemma processRawDataMajority_types:
  assumes "processRawDataMajority B rows fname = Some ds"
  shows "map v_type (d_variables ds) =
           map (\<lambda>h. fst (classifyColumnMajority B (map (\<lambda>r. row_get r h) rows))) (map fst (hd rows))"
  using assms by (auto simp: processRawDataMajority_def Let_def split: if_splits prod.splits)

section \<open>Properties of the forced re-classification\<close>

lemma parseOrNull_idem:
  assumes "roundtrips B x"
  shows "parseOrNull B (parseOrNull B x) = parseOrNull B x"
proof (cases "parseOrNull B x = VNull")
  case True
  then show ?thesis by (simp add: parseOrNull_def)
next
  case False
  then have y: "parseOrNull B x = VNum (parse_float B (js_String B x))"
    and nn: "\<not> is_nan (parse_float B (js_String B x))"
    by (auto simp: parseOrNull_def Let_def split: if_splits)
  from assms nn have "js_trim (number_to_string B (parse_float B (js_String B x))) \<noteq> []"
    and "parse_float B (number_to_string B (parse_float B (js_String B x)))
           = parse_float B (js_String B x)"
    by (simp_all add: roundtrips_def Let_def)
  with nn show ?thesis
    unfolding y by (simp add: parseOrNull_def Let_def)
qed

lemma forceVariable_forced:
  "v_type v = numerical \<Longrightarrow>
   forceVariable B v =
     v\<lparr> v_type := numerical, v_values := map (parseOrNull B) (v_values v),
        v_stats := calculateSummaryStats B (map (parseOrNull B) (v_values v)) numerical \<rparr>"
  by (simp add: forceVariable_def Let_def)

lemma forceVariable_cases:
  "forceVariable B v = v \<or>
   forceVariable B v =
     v\<lparr> v_type := numerical, v_values := map (parseOrNull B) (v_values v),
        v_stats := calculateSummaryStats B (map (parseOrNull B) (v_values v)) numerical \<rparr>"
  by (simp add: forceVariable_def Let_def)

lemma forceVariable_idem:
  assumes "list_all (roundtrips B) (v_values v)"
  shows "forceVariable B (forceVariable B v) = forceVariable B v"
proof -
  let ?nv = "map (parseOrNull B) (v_values v)"
  let ?v1 = "v\<lparr> v_type := numerical, v_values := ?nv,
                v_stats := calculateSummaryStats B ?nv numerical \<rparr>"
  have again: "map (parseOrNull B \<circ> parseOrNull B) (v_values v) = ?nv"
    using assms by (simp add: list_all_iff parseOrNull_idem)
  have "forceVariable B ?v1 = ?v1"
    by (simp add: forceVariable_forced again)
  with forceVariable_cases [of B v] show ?thesis by auto
qed

text \<open>
  Claim C8. Forcing twice is forcing once: applied to a dataset that is already its own
  output, \<open>forceNumericalAll\<close> yields the same variables (names, kinds, value
  sequences and statistics) and the same lists of numerical and categorical variable
  names. The conversions of the host language are assumed to round-trip on the values
  of the dataset: a number that \<open>parseFloat\<close> returns prints as a non-blank text that
  parses back to it.
\<close>

theorem forceNumericalAll_idempotent:
  assumes rt: "list_all (\<lambda>v. list_all (roundtrips B) (v_values v)) (d_variables ds)"
    and once: "forceNumericalAll B (Some ds) = Some d1"
    and twice: "forceNumericalAll B (Some d1) = Some d2"
  shows "d_variables d2 = d_variables d1
         \<and> map v_type (d_variables d2) = map v_type (d_variables d1)
         \<and> map v_values (d_variables d2) = map v_values (d_variables d1)
         \<and> map v_stats (d_variables d2) = map v_stats (d_variables d1)
         \<and> d_numericalVariables d2 = d_numericalVariables d1
         \<and> d_categoricalVariables d2 = d_categoricalVariables d1"
proof -
  from once have v1: "d_variables d1 = map (forceVariable B) (d_variables ds)"
    and n1: "d_numericalVariables d1 =
               map v_name (filter (\<lambda>v. v_type v = numerical) (d_variables d1))"
    and c1: "d_categoricalVariables d1 =
               map v_name (filter (\<lambda>v. v_type v = categorical) (d_variables d1))"
    by (auto simp: forceNumericalAll_def Let_def)
  from twice have v2: "d_variables d2 = map (forceVariable B) (d_variables d1)"
    and n2: "d_numericalVariables d2 =
               map v_name (filter (\<lambda>v. v_type v = numerical) (d_variables d2))"
    and c2: "d_categoricalVariables d2 =
               map v_name (filter (\<lambda>v. v_type v = categorical) (d_variables d2))"
    by (auto simp: forceNumericalAll_def Let_def)
  have "d_variables d2 = d_variables d1"
    unfolding v2 v1 using rt by (simp add: list_all_iff forceVariable_idem)
  with n1 n2 c1 c2 show ?thesis by simp
qed

theorem forceNumericalAll_idempotent_witness:
  "list_all (\<lambda>v. list_all (roundtrips dec_builtins) (v_values v)) (d_variables example_dataset)
   \<and> forceNumericalAll dec_builtins (Some example_dataset) \<noteq> None
   \<and> forceNumericalAll dec_builtins (forceNumericalAll dec_builtins (Some example_dataset)) \<noteq> None
   \<and> map v_values (d_variables (the (forceNumericalAll dec_builtins (Some example_dataset))))
       = [[VNum (Num 12), VNull, VNull, VNull, VNum (Num 7)]]
   \<and> d_variables (the (forceNumericalAll dec_builtins
         (forceNumericalAll dec_builtins (Some example_dataset))))
       = d_variables (the (forceNumericalAll dec_builtins (Some example_dataset)))"
proof -
  have rt: "list_all (\<lambda>v. list_all (roundtrips dec_builtins) (v_values v))
              (d_variables example_dataset)"
    by (simp add: example_dataset_def roundtrips_def dec_builtins_def Let_def is_digit_def
          is_ws_def js_trim_def digits_value_def digit_value_def digits_of.simps)
  obtain d1 where d1: "forceNumericalAll dec_builtins (Some example_dataset) = Some d1"
    by (simp add: forceNumericalAll_def Let_def)
  obtain d2 where d2: "forceNumericalAll dec_builtins (Some d1) = Some d2"
    by (simp add: forceNumericalAll_def Let_def)
  have "d_variables d1 = map (forceVariable dec_builtins) (d_variables example_dataset)"
    using d1 by (auto simp: forceNumericalAll_def Let_def)
  then have vals: "map v_values (d_variables d1) = [[VNum (Num 12), VNull, VNull, VNull, VNum (Num 7)]]"
    by (simp add: example_dataset_def forceVariable_def parseOrNull_def is_present_trimmed_def
          dec_builtins_def Let_def is_digit_def is_ws_def js_trim_def digits_value_def
          digit_value_def digits_of.simps)
  from forceNumericalAll_idempotent [OF rt d1 d2] have "d_variables d2 = d_variables d1" by simp
  with rt d1 d2 vals show ?thesis by simp
qed

end
